theory Spec2Isabelle
  imports Main "HOL-Library.AList"
begin

section \<open>Process descriptors (config/config.go)\<close>

text \<open>
  The structs of package config, field by field. Go's \<open>int\<close> is modelled as \<open>int\<close>: no
  property below drives a counter near \<open>2^63\<close>. The map \<open>Environment\<close> is an association
  list.
\<close>

record ClusterConfig =
  Instances :: int
  Mode :: string

record LogConfig =
  Stdout :: string
  Stderr :: string
  Rotate :: bool
  MaxSize :: string
  MaxFiles :: int

record ScriptsConfig =
  PreStart :: string
  PostStart :: string
  PreStop :: string
  PostStop :: string

record ProcessConfig =
  Name :: string
  Command :: string
  Args :: "string list"
  WorkingDir :: string
  Environment :: "(string \<times> string) list"
  Restart :: string
  MaxRestarts :: int
  RestartDelay :: int
  Cluster :: ClusterConfig
  Log :: LogConfig
  AutoStart :: bool
  User :: string
  Group :: string
  Scripts :: ScriptsConfig

section \<open>The process manager (package core)\<close>

subsection \<open>Records, the store and the registry\<close>

text \<open>
  A \<open>*ManagedProcess\<close> is an address into \<open>heap\<close>: the registry, a cluster master's
  \<open>ClusterProcs\<close> and every monitor goroutine hold such pointers, and the code mutates the
  object behind them. \<open>Cmd\<close> is \<open>None\<close> for a nil \<open>*exec.Cmd\<close> and otherwise carries the
  PID of the started child. \<open>LogFiles\<close> maps a stream name to the path that was opened.
  \<open>StartTime\<close>, \<open>PTY\<close> and the record's own mutex play no part in the operations below.
\<close>

record ManagedProcess =
  Config :: ProcessConfig
  Cmd :: "int option"
  PID :: int
  Status :: string
  Restarts :: int
  LogFiles :: "(string \<times> string) list"
  ClusterProcs :: "nat list"

text \<open>The goroutines the manager launches with \<open>go\<close>; they run later, when the scheduler picks them.\<close>

datatype task =
  Monitor nat
  | StopWaiter nat string
  | PostStartHook string

text \<open>
  \<open>processes\<close> is the Go map \<open>pm.processes\<close> (keys unique, order without meaning),
  \<open>locked\<close> says whether \<open>pm.mutex\<close> is held for writing. \<open>spawned\<close> and \<open>signals\<close> record
  what the manager did to the operating system: every child that \<open>cmd.Start\<close> created
  (name, PID) and every signal delivered (PID, and whether it was SIGKILL). \<open>tasks\<close>
  records the goroutines launched so far.
\<close>

record manager =
  processes :: "(string \<times> nat) list"
  heap :: "ManagedProcess list"
  locked :: bool
  processesPath :: string
  logsPath :: string
  spawned :: "(string \<times> int) list"
  signals :: "(int \<times> bool) list"
  tasks :: "task list"

text \<open>
  What the operating system and the Go library answer: whether \<open>sh -c script\<close> exits with
  zero, the user and group databases, \<open>strconv.Atoi\<close>, \<open>os.MkdirAll\<close>, \<open>os.OpenFile\<close>,
  \<open>cmd.Start\<close> (given the number of children started before, it yields the new PID or
  fails), signal delivery, \<open>filepath.Join\<close>, and the file system as \<open>os.Open\<close> with a
  \<open>bufio.Scanner\<close> reads it: a path holds no file, or a file with the lines the scanner
  yields and whether the scanner ends with an error.
\<close>

record os =
  runScript_ok :: "string \<Rightarrow> bool"
  user_Lookup :: "string \<Rightarrow> string option"
  user_LookupGroup :: "string \<Rightarrow> string option"
  Atoi :: "string \<Rightarrow> int option"
  MkdirAll_ok :: "string \<Rightarrow> bool"
  OpenFile_ok :: "string \<Rightarrow> bool"
  cmd_Start :: "ProcessConfig \<Rightarrow> nat \<Rightarrow> int option"
  signal_ok :: "int \<Rightarrow> bool"
  Join :: "string \<Rightarrow> string \<Rightarrow> string"
  files :: "string \<Rightarrow> (string list \<times> bool) option"

datatype error =
  AlreadyRunning string
  | PreStartFailed
  | LookupFailed string
  | AtoiFailed string
  | MkdirFailed string
  | OpenFailed string
  | StartFailed
  | NotFound string
  | SignalFailed
  | ClusterMasterLogs
  | InvalidStream string
  | ScanFailed

text \<open>
  A call returns a value, or it never returns: it blocks for ever on a mutex that is
  already held (\<open>Deadlock\<close>), it dereferences nil (\<open>Panic\<close>), or the model's bound on the
  recursion depth is used up (\<open>NoFuel\<close>). The model runs one call at a time, goroutines
  included: a mutex that is held when a call asks for it is held by that call's own
  caller, who waits for the call, so it is never released. \<open>sync.RWMutex\<close> is not
  reentrant.
\<close>

datatype 'a run = Deadlock | Panic | NoFuel | Return 'a

definition Lock :: "manager \<Rightarrow> manager run" where
  "Lock s = (if locked s then Deadlock else Return (s\<lparr>locked := True\<rparr>))"

definition Unlock :: "manager \<Rightarrow> manager" where
  "Unlock s = s\<lparr>locked := False\<rparr>"

text \<open>\<open>defer pm.mutex.Unlock()\<close>: the mutex is released when the function returns.\<close>

definition deferUnlock :: "('a \<times> manager) run \<Rightarrow> ('a \<times> manager) run" where
  "deferUnlock r = (case r of Return (x, s) \<Rightarrow> Return (x, Unlock s) | Deadlock \<Rightarrow> Deadlock
     | Panic \<Rightarrow> Panic | NoFuel \<Rightarrow> NoFuel)"

definition deref :: "manager \<Rightarrow> nat \<Rightarrow> ManagedProcess option" where
  "deref s a = (if a < length (heap s) then Some (heap s ! a) else None)"

definition setStatus :: "nat \<Rightarrow> string \<Rightarrow> manager \<Rightarrow> manager" where
  "setStatus a st s = s\<lparr>heap := (heap s)[a := (heap s ! a)\<lparr>Status := st\<rparr>]\<rparr>"

subsection \<open>Formatting and paths\<close>

definition digit_char :: "nat \<Rightarrow> char" where
  "digit_char n = ''0123456789'' ! n"

function decimal :: "nat \<Rightarrow> string" where
  "decimal n = (if n < 10 then [digit_char n] else decimal (n div 10) @ [digit_char (n mod 10)])"
  by pat_completeness auto
termination
  by (relation "measure id") auto

text \<open>The verb \<open>%d\<close> of \<open>fmt.Sprintf\<close>.\<close>

definition fmt_d :: "int \<Rightarrow> string" where
  "fmt_d i = (if i < 0 then CHR ''-'' # decimal (nat (- i)) else decimal (nat i))"

text \<open>\<open>filepath.IsAbs\<close> on a POSIX system: the path starts with a slash.\<close>

definition IsAbs :: "string \<Rightarrow> bool" where
  "IsAbs p = (case p of [] \<Rightarrow> False | c # _ \<Rightarrow> c = CHR ''/'')"

subsection \<open>Helpers of StartProcess\<close>

text \<open>\<open>setProcessUser\<close>: \<open>None\<close> is the nil error. The credential it stores on the command is not modelled.\<close>

definition setProcessUser :: "os \<Rightarrow> string \<Rightarrow> string \<Rightarrow> error option" where
  "setProcessUser w username groupname =
     (case user_Lookup w username of
        None \<Rightarrow> Some (LookupFailed username)
      | Some uid \<Rightarrow>
          (case Atoi w uid of
             None \<Rightarrow> Some (AtoiFailed uid)
           | Some _ \<Rightarrow>
               if groupname = [] then None
               else (case user_LookupGroup w groupname of
                       None \<Rightarrow> Some (LookupFailed groupname)
                     | Some gid \<Rightarrow>
                         (case Atoi w gid of
                            None \<Rightarrow> Some (AtoiFailed gid)
                          | Some _ \<Rightarrow> None))))"

definition stdoutPath :: "os \<Rightarrow> ProcessConfig \<Rightarrow> string \<Rightarrow> string" where
  "stdoutPath w procConfig lp =
     (if Stdout (Log procConfig) = [] then Join w lp (Name procConfig @ ''.out.log'')
      else if IsAbs (Stdout (Log procConfig)) then Stdout (Log procConfig)
      else Join w lp (Stdout (Log procConfig)))"

definition stderrPath :: "os \<Rightarrow> ProcessConfig \<Rightarrow> string \<Rightarrow> string" where
  "stderrPath w procConfig lp =
     (if Stderr (Log procConfig) = [] then Join w lp (Name procConfig @ ''.err.log'')
      else if IsAbs (Stderr (Log procConfig)) then Stderr (Log procConfig)
      else Join w lp (Stderr (Log procConfig)))"

text \<open>\<open>setupLogging\<close>: the two files are opened in turn; the first failure is returned.\<close>

definition setupLogging :: "os \<Rightarrow> ProcessConfig \<Rightarrow> string \<Rightarrow> error + (string \<times> string) list" where
  "setupLogging w procConfig lp =
     (if MkdirAll_ok w lp then
        (if OpenFile_ok w (stdoutPath w procConfig lp) then
           (if OpenFile_ok w (stderrPath w procConfig lp) then
              Inr [(''stdout'', stdoutPath w procConfig lp), (''stderr'', stderrPath w procConfig lp)]
            else Inl (OpenFailed (stderrPath w procConfig lp)))
         else Inl (OpenFailed (stdoutPath w procConfig lp)))
      else Inl (MkdirFailed lp))"

text \<open>The check at the head of \<open>StartProcess\<close>: a record of that name exists and its status is running.\<close>

definition alreadyRunning :: "manager \<Rightarrow> string \<Rightarrow> bool" where
  "alreadyRunning s name =
     (case map_of (processes s) name of
        None \<Rightarrow> False
      | Some a \<Rightarrow> (case deref s a of None \<Rightarrow> False | Some proc \<Rightarrow> Status proc = ''running''))"

text \<open>
  Lines 109 to 191 of \<open>StartProcess\<close>, the path of a descriptor that is not a cluster; the
  mutex is held. The PID file and the saved descriptor only produce log warnings.
\<close>

definition startSingle :: "os \<Rightarrow> ProcessConfig \<Rightarrow> manager \<Rightarrow> ((error + nat) \<times> manager) run" where
  "startSingle w procConfig s =
     (if PreStart (Scripts procConfig) \<noteq> [] \<and> \<not> runScript_ok w (PreStart (Scripts procConfig))
      then Return (Inl PreStartFailed, s)
      else
        (case (if User procConfig \<noteq> [] then setProcessUser w (User procConfig) (Group procConfig) else None) of
           Some e \<Rightarrow> Return (Inl e, s)
         | None \<Rightarrow>
             (case setupLogging w procConfig (logsPath s) of
                Inl e \<Rightarrow> Return (Inl e, s)
              | Inr logFiles \<Rightarrow>
                  (case cmd_Start w procConfig (length (spawned s)) of
                     None \<Rightarrow> Return (Inl StartFailed, s)
                   | Some pid \<Rightarrow>
                       Return (Inr (length (heap s)),
                         s\<lparr>heap := heap s @
                              [\<lparr>Config = procConfig, Cmd = Some pid, PID = pid, Status = ''running'',
                                Restarts = 0, LogFiles = logFiles, ClusterProcs = []\<rparr>],
                           spawned := spawned s @ [(Name procConfig, pid)],
                           processes := AList.update (Name procConfig) (length (heap s)) (processes s),
                           tasks := tasks s @
                             (if PostStart (Scripts procConfig) \<noteq> [] then [PostStartHook (PostStart (Scripts procConfig))] else [])
                             @ [Monitor (length (heap s))]\<rparr>)))))"

text \<open>The worker descriptor of index \<open>i\<close>: a copy with the worker's name and no cluster of its own.\<close>

definition instanceConfig :: "ProcessConfig \<Rightarrow> int \<Rightarrow> ProcessConfig" where
  "instanceConfig procConfig i =
     procConfig\<lparr>Name := Name procConfig @ ''-worker-'' @ fmt_d i,
                Cluster := (Cluster procConfig)\<lparr>Instances := 0\<rparr>\<rparr>"

definition appendClusterProc :: "nat \<Rightarrow> nat \<Rightarrow> manager \<Rightarrow> manager" where
  "appendClusterProc m a s =
     s\<lparr>heap := (heap s)[m := (heap s ! m)\<lparr>ClusterProcs := ClusterProcs (heap s ! m) @ [a]\<rparr>]\<rparr>"

subsection \<open>StartProcess and startClusterProcess\<close>

text \<open>
  \<open>StartProcess\<close> takes the manager's mutex and keeps it until it returns;
  \<open>startClusterProcess\<close> runs inside it and calls \<open>StartProcess\<close> again for each worker.
  \<open>startWorkers\<close> is the loop of \<open>startClusterProcess\<close> from index \<open>i\<close>, \<open>m\<close> being the
  address of the master record.
\<close>

function StartProcess :: "os \<Rightarrow> ProcessConfig \<Rightarrow> manager \<Rightarrow> ((error + nat) \<times> manager) run"
  and startClusterProcess :: "os \<Rightarrow> ProcessConfig \<Rightarrow> manager \<Rightarrow> ((error + nat) \<times> manager) run"
  and startWorkers :: "os \<Rightarrow> ProcessConfig \<Rightarrow> int \<Rightarrow> int \<Rightarrow> nat \<Rightarrow> manager \<Rightarrow> manager run"
  where
  "StartProcess w procConfig s =
     (case Lock s of
        Deadlock \<Rightarrow> Deadlock
      | Panic \<Rightarrow> Panic
      | NoFuel \<Rightarrow> NoFuel
      | Return s1 \<Rightarrow>
          deferUnlock
            (if alreadyRunning s1 (Name procConfig) then Return (Inl (AlreadyRunning (Name procConfig)), s1)
             else if Instances (Cluster procConfig) > 1 then startClusterProcess w procConfig s1
             else startSingle w procConfig s1))"
| "startClusterProcess w procConfig s =
     (case startWorkers w procConfig 0
             (if Instances (Cluster procConfig) \<le> 0 then 1 else Instances (Cluster procConfig))
             (length (heap s))
             (s\<lparr>heap := heap s @
                  [\<lparr>Config = procConfig, Cmd = None, PID = 0, Status = ''running'',
                    Restarts = 0, LogFiles = [], ClusterProcs = []\<rparr>]\<rparr>) of
        Deadlock \<Rightarrow> Deadlock
      | Panic \<Rightarrow> Panic
      | NoFuel \<Rightarrow> NoFuel
      | Return s2 \<Rightarrow>
          Return (Inr (length (heap s)),
            s2\<lparr>processes := AList.update (Name procConfig) (length (heap s)) (processes s2)\<rparr>))"
| "startWorkers w procConfig i instances m s =
     (if i < instances then
        (case StartProcess w (instanceConfig procConfig i) s of
           Deadlock \<Rightarrow> Deadlock
         | Panic \<Rightarrow> Panic
         | NoFuel \<Rightarrow> NoFuel
         | Return (Inl e, s') \<Rightarrow> startWorkers w procConfig (i + 1) instances m s'
         | Return (Inr a, s') \<Rightarrow> startWorkers w procConfig (i + 1) instances m (appendClusterProc m a s'))
      else Return s)"
  by pat_completeness auto
termination
  by (relation "inv_image (less_than <*lex*> less_than)
        (\<lambda>x. case x of
           Inl (w, c, s) \<Rightarrow> (if Instances (Cluster c) > 1 then 3 else 0, 0)
         | Inr (Inl (w, c, s)) \<Rightarrow> (2, 0)
         | Inr (Inr (w, c, i, n, m, s)) \<Rightarrow> (1, nat (n - i)))")
     (auto simp: instanceConfig_def)

subsection \<open>StopProcess\<close>

text \<open>
  \<open>StopProcess\<close> calls itself for every worker of a cluster master, looking each one up by
  its name; nothing in the code bounds that recursion on an arbitrary store, so the model
  carries the depth still allowed as its first argument. \<open>stopWorkers\<close> is the loop over
  \<open>proc.ClusterProcs\<close>; an error of a worker is logged and the loop goes on. The pre-stop
  hook's result is only logged. The goroutine that waits for the exit is recorded as a
  \<open>StopWaiter\<close> task.
\<close>

definition workerName :: "manager \<Rightarrow> nat \<Rightarrow> string option" where
  "workerName s a = (case deref s a of None \<Rightarrow> None | Some p \<Rightarrow> Some (Name (Config p)))"

fun StopProcess :: "nat \<Rightarrow> os \<Rightarrow> string \<Rightarrow> bool \<Rightarrow> manager \<Rightarrow> (error option \<times> manager) run"
  and stopWorkers :: "nat \<Rightarrow> os \<Rightarrow> nat list \<Rightarrow> bool \<Rightarrow> manager \<Rightarrow> manager run"
  where
  "StopProcess 0 w name force s = NoFuel"
| "StopProcess (Suc n) w name force s =
     (case Lock s of
        Deadlock \<Rightarrow> Deadlock
      | Panic \<Rightarrow> Panic
      | NoFuel \<Rightarrow> NoFuel
      | Return s0 \<Rightarrow>
          (case map_of (processes s0) name of
             None \<Rightarrow> Return (Some (NotFound name), Unlock s0)
           | Some a \<Rightarrow>
               (case deref (Unlock s0) a of
                  None \<Rightarrow> Panic
                | Some proc \<Rightarrow>
                    if length (ClusterProcs proc) > 0 then
                      (case stopWorkers n w (ClusterProcs proc) force (Unlock s0) of
                         Deadlock \<Rightarrow> Deadlock
                       | Panic \<Rightarrow> Panic
                       | NoFuel \<Rightarrow> NoFuel
                       | Return s1 \<Rightarrow>
                           (case Lock (setStatus a ''stopped'' s1) of
                              Deadlock \<Rightarrow> Deadlock
                            | Panic \<Rightarrow> Panic
                            | NoFuel \<Rightarrow> NoFuel
                            | Return s2 \<Rightarrow>
                                Return (None, Unlock (s2\<lparr>processes := AList.delete name (processes s2)\<rparr>))))
                    else
                      (case Cmd proc of
                         None \<Rightarrow> Panic
                       | Some pid \<Rightarrow>
                           if signal_ok w pid then
                             Return (None,
                               (setStatus a ''stopped'' (Unlock s0))
                                 \<lparr>signals := signals s0 @ [(pid, force)],
                                  tasks := tasks s0 @ [StopWaiter a name]\<rparr>)
                           else Return (Some SignalFailed, Unlock s0)))))"
| "stopWorkers n w [] force s = Return s"
| "stopWorkers n w (wa # ws) force s =
     (case workerName s wa of
        None \<Rightarrow> Panic
      | Some wn \<Rightarrow>
          (case StopProcess n w wn force s of
             Deadlock \<Rightarrow> Deadlock
           | Panic \<Rightarrow> Panic
           | NoFuel \<Rightarrow> NoFuel
           | Return (e, s') \<Rightarrow> stopWorkers n w ws force s'))"

text \<open>
  The goroutine launched by \<open>StopProcess\<close>, from the moment \<open>proc.Cmd.Wait()\<close> has
  returned: log files closed, PID file deleted, post-stop hook run (its failure is logged),
  and the name removed from the registry.
\<close>

definition stopWaiter :: "os \<Rightarrow> nat \<Rightarrow> string \<Rightarrow> manager \<Rightarrow> manager run" where
  "stopWaiter w a name s =
     (case Lock s of
        Deadlock \<Rightarrow> Deadlock
      | Panic \<Rightarrow> Panic
      | NoFuel \<Rightarrow> NoFuel
      | Return s1 \<Rightarrow> Return (Unlock (s1\<lparr>processes := AList.delete name (processes s1)\<rparr>)))"

subsection \<open>monitorProcess\<close>

text \<open>
  The monitor goroutine of the record at address \<open>a\<close>, from the moment \<open>proc.Cmd.Wait()\<close>
  has returned; \<open>waitErr\<close> says whether the error it returned is non-nil (a non-zero exit
  status or a death by signal). The sleep before the restart has no effect on the state.
\<close>

definition shouldRestart :: "ProcessConfig \<Rightarrow> bool \<Rightarrow> bool" where
  "shouldRestart procConfig waitErr =
     (if Restart procConfig = ''always'' then True
      else if Restart procConfig = ''on-failure'' \<and> waitErr then True
      else False)"

definition incRestarts :: "nat \<Rightarrow> manager \<Rightarrow> manager" where
  "incRestarts a s = s\<lparr>heap := (heap s)[a := (heap s ! a)\<lparr>Restarts := Restarts (heap s ! a) + 1\<rparr>]\<rparr>"

definition monitorProcess :: "os \<Rightarrow> nat \<Rightarrow> bool \<Rightarrow> manager \<Rightarrow> manager run" where
  "monitorProcess w a waitErr s =
     (case deref s a of
        None \<Rightarrow> Panic
      | Some proc \<Rightarrow>
          (case Cmd proc of
             None \<Rightarrow> Panic
           | Some c \<Rightarrow>
               if shouldRestart (Config proc) waitErr \<and>
                  (MaxRestarts (Config proc) = 0 \<or> Restarts proc < MaxRestarts (Config proc))
               then
                 (case StartProcess w (Config proc) (incRestarts a (setStatus a ''stopped'' s)) of
                    Deadlock \<Rightarrow> Deadlock
                  | Panic \<Rightarrow> Panic
                  | NoFuel \<Rightarrow> NoFuel
                  | Return (r, s') \<Rightarrow> Return s')
               else
                 (case Lock (setStatus a ''stopped'' s) of
                    Deadlock \<Rightarrow> Deadlock
                  | Panic \<Rightarrow> Panic
                  | NoFuel \<Rightarrow> NoFuel
                  | Return s1 \<Rightarrow>
                      Return (Unlock (s1\<lparr>processes := AList.delete (Name (Config proc)) (processes s1)\<rparr>)))))"

subsection \<open>Reading the registry and the logs\<close>

text \<open>
  \<open>GetProcess\<close> and \<open>ListProcesses\<close> hold the read lock while they look at the map, so they
  block while the mutex is held for writing; they leave the manager as it is.
  \<open>ListProcesses\<close> ranges over the map; the model yields the records in the order of the
  association list.
\<close>

definition GetProcess :: "manager \<Rightarrow> string \<Rightarrow> (error + nat) run" where
  "GetProcess s name =
     (if locked s then Deadlock
      else (case map_of (processes s) name of
              None \<Rightarrow> Return (Inl (NotFound name))
            | Some a \<Rightarrow> Return (Inr a)))"

definition ListProcesses :: "manager \<Rightarrow> nat list run" where
  "ListProcesses s = (if locked s then Deadlock else Return (map snd (processes s)))"

text \<open>
  \<open>readLastLines\<close>. A file that cannot be opened is an error. With \<open>n \<le> 0\<close> the lines read
  so far are returned together with the scanner's error, if any; otherwise a scanner error
  is returned alone, and else the last \<open>n\<close> lines (all of them when there are at most \<open>n\<close>).
\<close>

definition readLastLines :: "os \<Rightarrow> string \<Rightarrow> int \<Rightarrow> string list \<times> error option" where
  "readLastLines w filePath n =
     (case files w filePath of
        None \<Rightarrow> ([], Some (OpenFailed filePath))
      | Some (lines, scanErr) \<Rightarrow>
          if n \<le> 0 then (lines, if scanErr then Some ScanFailed else None)
          else if scanErr then ([], Some ScanFailed)
          else if int (length lines) \<le> n then (lines, None)
          else (drop (nat (int (length lines) - n)) lines, None))"

definition GetLogs :: "os \<Rightarrow> manager \<Rightarrow> string \<Rightarrow> string \<Rightarrow> int \<Rightarrow> (string list \<times> error option) run" where
  "GetLogs w s name stream lines =
     (case GetProcess s name of
        Deadlock \<Rightarrow> Deadlock
      | Panic \<Rightarrow> Panic
      | NoFuel \<Rightarrow> NoFuel
      | Return (Inl e) \<Rightarrow> Return ([], Some e)
      | Return (Inr a) \<Rightarrow>
          (case deref s a of
             None \<Rightarrow> Panic
           | Some proc \<Rightarrow>
               if length (ClusterProcs proc) > 0 then Return ([], Some ClusterMasterLogs)
               else if stream = ''stdout'' then
                 Return (readLastLines w
                   (if Stdout (Log (Config proc)) \<noteq> [] then Stdout (Log (Config proc))
                    else Join w (logsPath s) (Name (Config proc) @ ''.out.log'')) lines)
               else if stream = ''stderr'' then
                 Return (readLastLines w
                   (if Stderr (Log (Config proc)) \<noteq> [] then Stderr (Log (Config proc))
                    else Join w (logsPath s) (Name (Config proc) @ ''.err.log'')) lines)
               else Return ([], Some (InvalidStream stream))))"

section \<open>The HTTP API (package api)\<close>

text \<open>\<open>name[len(name)-8:]\<close> is the string without its first \<open>len(name) - 8\<close> bytes.\<close>

definition isClusterWorker :: "string \<Rightarrow> bool" where
  "isClusterWorker name = (length name > 8 \<and> drop (length name - 8) name = ''-worker-'')"

text \<open>The handler of \<open>GET /processes\<close>: the array it sends, as addresses of records.\<close>

definition listProcesses :: "manager \<Rightarrow> nat list run" where
  "listProcesses s =
     (case ListProcesses s of
        Deadlock \<Rightarrow> Deadlock
      | Panic \<Rightarrow> Panic
      | NoFuel \<Rightarrow> NoFuel
      | Return procs \<Rightarrow>
          Return (filter (\<lambda>a. \<not> isClusterWorker (Name (Config (heap s ! a)))) procs))"

section \<open>The script service (package main)\<close>

record Script =
  script_Name :: string
  script_File :: string
  script_Schedule :: string
  script_Process :: string

text \<open>
  \<open>stored\<close> is the directory of script records, one JSON file per name, read back as the
  record that was written; \<open>scheduled\<close> lists the entries of the cron engine (expression
  and script name).
\<close>

record scripts =
  stored :: "string \<Rightarrow> Script option"
  scheduled :: "(string \<times> string) list"

text \<open>
  What the surroundings of the script service answer: whether the cron engine parses an
  expression, whether a file exists, whether the process service knows a process, and
  whether writing a script's file succeeds.
\<close>

record script_os =
  cron_parses :: "string \<Rightarrow> bool"
  file_exists :: "string \<Rightarrow> bool"
  process_known :: "string \<Rightarrow> bool"
  write_ok :: "string \<Rightarrow> bool"

datatype script_error =
  ScriptExists string
  | FileMissing string
  | ProcessMissing string
  | WriteFailed
  | ScheduleFailed

definition scheduleScript :: "script_os \<Rightarrow> Script \<Rightarrow> scripts \<Rightarrow> script_error option \<times> scripts" where
  "scheduleScript w script st =
     (if script_Schedule script = [] then (None, st)
      else if cron_parses w (script_Schedule script)
        then (None, st\<lparr>scheduled := scheduled st @ [(script_Schedule script, script_Name script)]\<rparr>)
      else (Some ScheduleFailed, st))"

definition saveScript :: "script_os \<Rightarrow> Script \<Rightarrow> scripts \<Rightarrow> script_error option \<times> scripts" where
  "saveScript w script st =
     (if write_ok w (script_Name script)
        then (None, st\<lparr>stored := (stored st)(script_Name script \<mapsto> script)\<rparr>)
      else (Some WriteFailed, st))"

definition Add :: "script_os \<Rightarrow> string \<Rightarrow> string \<Rightarrow> string \<Rightarrow> string \<Rightarrow> scripts \<Rightarrow> script_error option \<times> scripts" where
  "Add w name file schedule process st =
     (case stored st name of
        Some _ \<Rightarrow> (Some (ScriptExists name), st)
      | None \<Rightarrow>
          if file_exists w file then
            (if process \<noteq> [] \<and> \<not> process_known w process then (Some (ProcessMissing process), st)
             else
               (case saveScript w \<lparr>script_Name = name, script_File = file,
                                   script_Schedule = schedule, script_Process = process\<rparr> st of
                  (Some e, st1) \<Rightarrow> (Some e, st1)
                | (None, st1) \<Rightarrow>
                    if schedule \<noteq> [] then
                      scheduleScript w \<lparr>script_Name = name, script_File = file,
                                        script_Schedule = schedule, script_Process = process\<rparr> st1
                    else (None, st1)))
          else (Some (FileMissing file), st))"

section \<open>Concrete surroundings and descriptors\<close>

text \<open>
  An operating system on which everything succeeds (the \<open>n\<close>-th child gets the PID
  \<open>1000 + n\<close>), variants on which one step fails, an empty manager, and a descriptor with
  the given name, restart policy, restart cap and number of instances.
\<close>

definition os_ok :: os where
  "os_ok = \<lparr>runScript_ok = (\<lambda>_. True), user_Lookup = (\<lambda>_. Some ''1000''),
     user_LookupGroup = (\<lambda>_. Some ''1000''), Atoi = (\<lambda>_. Some 1000), MkdirAll_ok = (\<lambda>_. True),
     OpenFile_ok = (\<lambda>_. True), cmd_Start = (\<lambda>c n. Some (1000 + int n)), signal_ok = (\<lambda>_. True),
     Join = (\<lambda>d f. d @ ''/'' @ f), files = (\<lambda>_. None)\<rparr>"

definition os_nostart :: os where
  "os_nostart = os_ok\<lparr>cmd_Start := (\<lambda>c n. None)\<rparr>"

definition os_hookfail :: os where
  "os_hookfail = os_ok\<lparr>runScript_ok := (\<lambda>_. False)\<rparr>"

definition pm0 :: manager where
  "pm0 = \<lparr>processes = [], heap = [], locked = False, processesPath = ''/gem/processes'',
     logsPath = ''/gem/logs'', spawned = [], signals = [], tasks = []\<rparr>"

definition descriptor :: "string \<Rightarrow> string \<Rightarrow> int \<Rightarrow> int \<Rightarrow> ProcessConfig" where
  "descriptor name restart maxRestarts instances =
     \<lparr>Name = name, Command = ''sleep'', Args = [''1000''], WorkingDir = [], Environment = [],
      Restart = restart, MaxRestarts = maxRestarts, RestartDelay = 0,
      Cluster = \<lparr>Instances = instances, Mode = ''fork''\<rparr>,
      Log = \<lparr>Stdout = [], Stderr = [], Rotate = False, MaxSize = [], MaxFiles = 0\<rparr>,
      AutoStart = False, User = [], Group = [],
      Scripts = \<lparr>PreStart = [], PostStart = [], PreStop = [], PostStop = []\<rparr>\<rparr>"

text \<open>Sequencing of calls: what follows runs on the value the call returned, if it returned.\<close>

definition andThen :: "'a run \<Rightarrow> ('a \<Rightarrow> 'b run) \<Rightarrow> 'b run" where
  "andThen r f = (case r of Return x \<Rightarrow> f x | Deadlock \<Rightarrow> Deadlock | Panic \<Rightarrow> Panic | NoFuel \<Rightarrow> NoFuel)"

definition script_os_badcron :: script_os where
  "script_os_badcron = \<lparr>cron_parses = (\<lambda>_. False), file_exists = (\<lambda>_. True),
     process_known = (\<lambda>_. True), write_ok = (\<lambda>_. True)\<rparr>"

definition scripts0 :: scripts where
  "scripts0 = \<lparr>stored = (\<lambda>_. None), scheduled = []\<rparr>"

text \<open>A descriptor whose pre-start hook is set.\<close>

definition hooked :: ProcessConfig where
  "hooked = (descriptor ''svc'' ''always'' 0 0)\<lparr>Scripts :=
     \<lparr>PreStart = ''exit 1'', PostStart = [], PreStop = [], PostStop = []\<rparr>\<rparr>"

text \<open>The manager after one successful start of a descriptor on the empty manager.\<close>

definition record0 :: "ProcessConfig \<Rightarrow> ManagedProcess" where
  "record0 c = \<lparr>Config = c, Cmd = Some 1000, PID = 1000, Status = ''running'', Restarts = 0,
     LogFiles = [(''stdout'', ''/gem/logs/'' @ Name c @ ''.out.log''),
                 (''stderr'', ''/gem/logs/'' @ Name c @ ''.err.log'')],
     ClusterProcs = []\<rparr>"

definition pm1 :: "ProcessConfig \<Rightarrow> manager" where
  "pm1 c = pm0\<lparr>processes := [(Name c, 0)], heap := [record0 c],
     spawned := [(Name c, 1000)], tasks := [Monitor 0]\<rparr>"

text \<open>A file system with a three-line standard output log of \<open>svc\<close> and no other file.\<close>

definition os_logs :: os where
  "os_logs = os_ok\<lparr>files := (\<lambda>path. if path = ''/gem/logs/svc.out.log''
     then Some ([''one'', ''two'', ''three''], False) else None)\<rparr>"

text \<open>
  A descriptor whose log paths are relative, and a file system on which the file that
  \<open>setupLogging\<close> opens for its standard output holds three lines while the working
  directory of the manager holds no file of the bare relative name.
\<close>

definition relative :: ProcessConfig where
  "relative = (descriptor ''web'' ''always'' 0 0)\<lparr>Log :=
     \<lparr>Stdout = ''logs/out.log'', Stderr = ''logs/error.log'', Rotate = False,
      MaxSize = [], MaxFiles = 0\<rparr>\<rparr>"

definition os_rel :: os where
  "os_rel = os_ok\<lparr>files := (\<lambda>path. if path = ''/gem/logs/logs/out.log''
     then Some ([''one'', ''two'', ''three''], False) else None)\<rparr>"

text \<open>No record of the store has workers, that is, no record is a cluster master.\<close>

definition noMaster :: "manager \<Rightarrow> bool" where
  "noMaster s = list_all (\<lambda>p. ClusterProcs p = []) (heap s)"

section \<open>Properties\<close>

declare StartProcess.simps [simp del] startClusterProcess.simps [simp del] startWorkers.simps [simp del]

subsection \<open>Starting a cluster\<close>

text \<open>
  While the manager's mutex is held, a nested \<open>StartProcess\<close> blocks on it; the loop of
  \<open>startClusterProcess\<close> makes such a call for its first worker, with the mutex held by the
  enclosing \<open>StartProcess\<close>.
\<close>

lemma deref_locked [simp]: "deref (s\<lparr>locked := b\<rparr>) a = deref s a"
  by (simp add: deref_def)

lemma alreadyRunning_locked [simp]: "alreadyRunning (s\<lparr>locked := b\<rparr>) name = alreadyRunning s name"
  by (simp add: alreadyRunning_def split: option.splits)

lemma StartProcess_locked: "locked s \<Longrightarrow> StartProcess w c s = Deadlock"
  by (subst StartProcess.simps) (simp add: Lock_def)

lemma startWorkers_locked: "locked s \<Longrightarrow> i < n \<Longrightarrow> startWorkers w c i n m s = Deadlock"
  by (subst startWorkers.simps) (simp add: StartProcess_locked)

lemma startClusterProcess_locked: "locked s \<Longrightarrow> startClusterProcess w c s = Deadlock"
  by (subst startClusterProcess.simps) (simp add: startWorkers_locked)

lemma StartProcess_cluster:
  "1 < Instances (Cluster c) \<Longrightarrow> \<not> locked s \<Longrightarrow> \<not> alreadyRunning s (Name c) \<Longrightarrow>
   StartProcess w c s = Deadlock"
  by (subst StartProcess.simps)
     (simp add: Lock_def deferUnlock_def startClusterProcess_locked)

text \<open>
  C5. A descriptor with three instances is started on an empty manager, on a system where
  every step succeeds. The claim expects three workers and a parent record; the call
  never returns, so no worker is spawned and no parent is inserted.
\<close>

theorem cluster_start_never_returns:
  "StartProcess os_ok (descriptor ''web'' ''always'' 0 3) pm0 = Deadlock"
  by (simp add: StartProcess_cluster descriptor_def pm0_def alreadyRunning_def)

text \<open>
  C10. A descriptor with two instances is started on a system where spawning any child
  fails. The claim expects the parent record with a nil error and no children; the call
  never returns.
\<close>

theorem cluster_start_failing_workers_never_returns:
  "StartProcess os_nostart (descriptor ''web'' ''always'' 0 2) pm0 = Deadlock"
  by (simp add: StartProcess_cluster descriptor_def pm0_def alreadyRunning_def)

subsection \<open>The restart cap\<close>

text \<open>
  C2. A descriptor with policy always and \<open>maxRestarts = 1\<close> is started, and its child
  exits twice with a failure, each exit seen by the monitor of the record then running.
  The claim allows two spawns; the manager has spawned three children, because each
  restart creates a fresh record whose counter is zero again.
\<close>

theorem restart_cap_exceeded:
  "andThen (StartProcess os_ok (descriptor ''job'' ''always'' 1 0) pm0) (\<lambda>(r, s1).
   andThen (monitorProcess os_ok 0 True s1) (\<lambda>s2.
   andThen (monitorProcess os_ok 1 True s2) (\<lambda>s3.
     Return (r, tasks s2, spawned s3, map Restarts (heap s3)))))
   = Return (Inr 0, [Monitor 0, Monitor 1],
       [(''job'', 1000), (''job'', 1001), (''job'', 1002)], [1, 1, 0])"
  by code_simp

subsection \<open>Stop and the monitor\<close>

text \<open>
  C1. A process with policy always is started and then stopped with force; the stop
  succeeds. When its monitor then sees the exit (killed, so with an error), it starts the
  command again: a second child is spawned and registered as running.
\<close>

theorem stopped_process_respawned:
  "andThen (StartProcess os_ok (descriptor ''svc'' ''always'' 0 0) pm0) (\<lambda>(r, s1).
   andThen (StopProcess 1 os_ok ''svc'' True s1) (\<lambda>(e, s2).
   andThen (monitorProcess os_ok 0 True s2) (\<lambda>s3.
     Return (e, map Status (heap s2), signals s2, spawned s3, processes s3, map Status (heap s3)))))
   = Return (None, [''stopped''], [(1000, True)],
       [(''svc'', 1000), (''svc'', 1001)], [(''svc'', 1)], [''stopped'', ''running''])"
  by code_simp

subsection \<open>Listing processes\<close>

text \<open>
  C7. A process named \<open>web-worker-0\<close> is registered. Its name ends with \<open>-worker-\<close> and an
  index, so the claim expects the listing to leave it out; \<open>isClusterWorker\<close> compares the
  last eight bytes, \<open>worker-0\<close>, with \<open>-worker-\<close>, and the record is listed.
\<close>

theorem worker_listed:
  "isClusterWorker ''web-worker-0'' = False \<and>
   andThen (StartProcess os_ok (descriptor ''web-worker-0'' ''always'' 0 0) pm0)
     (\<lambda>(r, s). Return (ListProcesses s, listProcesses s)) = Return (Return [0], Return [0])"
  by code_simp

subsection \<open>Adding a script\<close>

text \<open>
  C9. A script is added with a schedule the cron engine rejects. The call returns an
  error, as the claim says, but the record was written before the schedule was tried and
  stays stored.
\<close>

theorem rejected_script_persisted:
  "fst (Add script_os_badcron ''job'' ''/opt/job.sh'' ''every day'' [] scripts0) = Some ScheduleFailed \<and>
   stored (snd (Add script_os_badcron ''job'' ''/opt/job.sh'' ''every day'' [] scripts0)) ''job'' =
     Some \<lparr>script_Name = ''job'', script_File = ''/opt/job.sh'',
           script_Schedule = ''every day'', script_Process = []\<rparr>"
  by (simp add: Add_def saveScript_def scheduleScript_def script_os_badcron_def scripts0_def)

subsection \<open>A start that fails\<close>

lemma Unlock_Lock: "\<not> locked s \<Longrightarrow> Unlock (s\<lparr>locked := True\<rparr>) = s"
  by (cases s) (simp add: Unlock_def)

lemma startSingle_error: "startSingle w c s = Return (Inl e, s') \<Longrightarrow> s' = s"
  by (auto simp: startSingle_def split: if_splits option.splits sum.splits)

lemma StartProcess_error: 
  assumes "StartProcess w c s = Return (Inl e, s')"
  shows "s' = s"
proof (cases "locked s")
  case True
  with assms show ?thesis by (simp add: StartProcess_locked)
next
  case False
  let ?s1 = "s\<lparr>locked := True\<rparr>"
  have r: "deferUnlock
            (if alreadyRunning ?s1 (Name c) then Return (Inl (AlreadyRunning (Name c)), ?s1)
             else if Instances (Cluster c) > 1 then startClusterProcess w c ?s1
             else startSingle w c ?s1) = Return (Inl e, s')"
    using assms False by (subst (asm) StartProcess.simps) (simp add: Lock_def)
  show ?thesis
  proof (cases "alreadyRunning ?s1 (Name c)")
    case True
    with r False show ?thesis by (simp add: deferUnlock_def Unlock_Lock)
  next
    case nr: False
    show ?thesis
    proof (cases "Instances (Cluster c) > 1")
      case True
      with r nr show ?thesis by (simp add: startClusterProcess_locked deferUnlock_def)
    next
      case single: False
      with r nr have "deferUnlock (startSingle w c ?s1) = Return (Inl e, s')" by simp
      then obtain s2 where s2: "startSingle w c ?s1 = Return (Inl e, s2)" and "s' = Unlock s2"
        by (auto simp: deferUnlock_def split: run.splits)
      with startSingle_error[OF s2] False show ?thesis by (simp add: Unlock_Lock)
    qed
  qed
qed

lemma startSingle_fails:
  assumes "(PreStart (Scripts c) \<noteq> [] \<and> \<not> runScript_ok w (PreStart (Scripts c))) \<or>
      (User c \<noteq> [] \<and> user_Lookup w (User c) = None) \<or>
      (User c \<noteq> [] \<and> Group c \<noteq> [] \<and> user_LookupGroup w (Group c) = None) \<or>
      \<not> OpenFile_ok w (stdoutPath w c (logsPath s)) \<or>
      \<not> OpenFile_ok w (stderrPath w c (logsPath s)) \<or>
      cmd_Start w c (length (spawned s)) = None"
  shows "\<exists>e. startSingle w c s = Return (Inl e, s)"
  using assms
  by (auto simp: startSingle_def setProcessUser_def setupLogging_def split: option.splits sum.splits)

text \<open>
  C4. A call of \<open>StartProcess\<close> that returns an error leaves the registry and every record
  as they were. And each of the failures named in the claim does make the call return an
  error, on the unchanged manager: a pre-start hook that exits with non-zero, a failed
  user or group lookup, a log file that cannot be opened, a child that cannot be spawned.
\<close>

theorem failed_start_leaves_registry:
  "(StartProcess w c s = Return (Inl e, s') \<longrightarrow> processes s' = processes s \<and> heap s' = heap s) \<and>
   (\<not> locked s \<and> Instances (Cluster c) \<le> 1 \<and>
     ((PreStart (Scripts c) \<noteq> [] \<and> \<not> runScript_ok w (PreStart (Scripts c))) \<or>
      (User c \<noteq> [] \<and> user_Lookup w (User c) = None) \<or>
      (User c \<noteq> [] \<and> Group c \<noteq> [] \<and> user_LookupGroup w (Group c) = None) \<or>
      \<not> OpenFile_ok w (stdoutPath w c (logsPath s)) \<or>
      \<not> OpenFile_ok w (stderrPath w c (logsPath s)) \<or>
      cmd_Start w c (length (spawned s)) = None)
     \<longrightarrow> (\<exists>err. StartProcess w c s = Return (Inl err, s)))"
proof (intro conjI impI)
  assume "StartProcess w c s = Return (Inl e, s')"
  then have "s' = s" by (rule StartProcess_error)
  then show "processes s' = processes s" and "heap s' = heap s" by simp_all
next
  assume a: "\<not> locked s \<and> Instances (Cluster c) \<le> 1 \<and>
     ((PreStart (Scripts c) \<noteq> [] \<and> \<not> runScript_ok w (PreStart (Scripts c))) \<or>
      (User c \<noteq> [] \<and> user_Lookup w (User c) = None) \<or>
      (User c \<noteq> [] \<and> Group c \<noteq> [] \<and> user_LookupGroup w (Group c) = None) \<or>
      \<not> OpenFile_ok w (stdoutPath w c (logsPath s)) \<or>
      \<not> OpenFile_ok w (stderrPath w c (logsPath s)) \<or>
      cmd_Start w c (length (spawned s)) = None)"
  let ?s1 = "s\<lparr>locked := True\<rparr>"
  from a have "\<exists>e. startSingle w c ?s1 = Return (Inl e, ?s1)"
    by (intro startSingle_fails) simp
  then obtain e1 where e1: "startSingle w c ?s1 = Return (Inl e1, ?s1)" ..
  show "\<exists>err. StartProcess w c s = Return (Inl err, s)"
  proof (cases "alreadyRunning s (Name c)")
    case True
    with a show ?thesis
      by (subst StartProcess.simps) (simp add: Lock_def deferUnlock_def Unlock_Lock)
  next
    case False
    with a e1 show ?thesis
      by (subst StartProcess.simps) (simp add: Lock_def deferUnlock_def Unlock_Lock)
  qed
qed

theorem failed_start_leaves_registry_witness:
  "\<not> locked pm0 \<and> Instances (Cluster hooked) \<le> 1 \<and> PreStart (Scripts hooked) \<noteq> [] \<and>
   \<not> runScript_ok os_hookfail (PreStart (Scripts hooked)) \<and>
   (\<exists>err. StartProcess os_hookfail hooked pm0 = Return (Inl err, pm0))"
  using failed_start_leaves_registry [of os_hookfail hooked pm0]
  by (simp add: hooked_def descriptor_def pm0_def os_hookfail_def os_ok_def)

subsection \<open>The decision of the monitor\<close>

lemma startSingle_ok:
  assumes "PreStart (Scripts c) = [] \<or> runScript_ok w (PreStart (Scripts c))"
    and "User c = [] \<or> setProcessUser w (User c) (Group c) = None"
    and "MkdirAll_ok w (logsPath s)"
    and "OpenFile_ok w (stdoutPath w c (logsPath s))"
    and "OpenFile_ok w (stderrPath w c (logsPath s))"
    and "cmd_Start w c (length (spawned s)) = Some pid"
  shows "startSingle w c s =
     Return (Inr (length (heap s)),
       s\<lparr>heap := heap s @
            [\<lparr>Config = c, Cmd = Some pid, PID = pid, Status = ''running'', Restarts = 0,
              LogFiles = [(''stdout'', stdoutPath w c (logsPath s)), (''stderr'', stderrPath w c (logsPath s))],
              ClusterProcs = []\<rparr>],
         spawned := spawned s @ [(Name c, pid)],
         processes := AList.update (Name c) (length (heap s)) (processes s),
         tasks := tasks s @
           (if PostStart (Scripts c) \<noteq> [] then [PostStartHook (PostStart (Scripts c))] else [])
           @ [Monitor (length (heap s))]\<rparr>)"
  using assms by (auto simp: startSingle_def setupLogging_def)

lemma monitor_terminal:
  assumes "deref s a = Some p" and "Cmd p = Some pid" and "\<not> locked s"
    and "\<not> (shouldRestart (Config p) waitErr \<and>
            (MaxRestarts (Config p) = 0 \<or> Restarts p < MaxRestarts (Config p)))"
  shows "monitorProcess w a waitErr s =
     Return (s\<lparr>heap := (heap s)[a := p\<lparr>Status := ''stopped''\<rparr>],
              processes := AList.delete (Name (Config p)) (processes s)\<rparr>)"
proof -
  from assms(1) have p: "heap s ! a = p" and a: "a < length (heap s)"
    by (auto simp: deref_def split: if_splits)
  from assms(3) have "s\<lparr>heap := (heap s)[a := p\<lparr>Status := ''stopped''\<rparr>], locked := True,
         processes := AList.delete (Name (Config p)) (processes s), locked := False\<rparr>
       = s\<lparr>heap := (heap s)[a := p\<lparr>Status := ''stopped''\<rparr>],
              processes := AList.delete (Name (Config p)) (processes s)\<rparr>"
    by (cases s) simp
  moreover from assms(4) have "(shouldRestart (Config p) waitErr \<and>
            (MaxRestarts (Config p) = 0 \<or> Restarts p < MaxRestarts (Config p))) = False"
    by blast
  ultimately show ?thesis
    using assms(1,2,3) p
    by (auto simp: monitorProcess_def Lock_def Unlock_def setStatus_def)
qed

lemma monitor_restart:
  assumes "deref s a = Some p" and "Cmd p = Some pid" and "\<not> locked s"
    and "shouldRestart (Config p) waitErr"
    and "MaxRestarts (Config p) = 0 \<or> Restarts p < MaxRestarts (Config p)"
    and "map_of (processes s) (Name (Config p)) = Some a"
    and "Instances (Cluster (Config p)) \<le> 1"
    and "PreStart (Scripts (Config p)) = [] \<or> runScript_ok w (PreStart (Scripts (Config p)))"
    and "User (Config p) = [] \<or> setProcessUser w (User (Config p)) (Group (Config p)) = None"
    and "MkdirAll_ok w (logsPath s)"
    and "OpenFile_ok w (stdoutPath w (Config p) (logsPath s))"
    and "OpenFile_ok w (stderrPath w (Config p) (logsPath s))"
    and "cmd_Start w (Config p) (length (spawned s)) = Some pid'"
  shows "monitorProcess w a waitErr s =
     Return (s\<lparr>heap := (heap s)[a := p\<lparr>Status := ''stopped'', Restarts := Restarts p + 1\<rparr>] @
            [\<lparr>Config = Config p, Cmd = Some pid', PID = pid', Status = ''running'', Restarts = 0,
              LogFiles = [(''stdout'', stdoutPath w (Config p) (logsPath s)),
                          (''stderr'', stderrPath w (Config p) (logsPath s))],
              ClusterProcs = []\<rparr>],
         spawned := spawned s @ [(Name (Config p), pid')],
         processes := AList.update (Name (Config p)) (length (heap s)) (processes s),
         tasks := tasks s @
           (if PostStart (Scripts (Config p)) \<noteq> [] then [PostStartHook (PostStart (Scripts (Config p)))] else [])
           @ [Monitor (length (heap s))]\<rparr>)"
proof -
  from assms(1) have p: "heap s ! a = p" and a: "a < length (heap s)"
    by (auto simp: deref_def split: if_splits)
  let ?s2 = "incRestarts a (setStatus a ''stopped'' s)"
  let ?s3 = "?s2\<lparr>locked := True\<rparr>"
  have h2: "heap ?s2 = (heap s)[a := p\<lparr>Status := ''stopped'', Restarts := Restarts p + 1\<rparr>]"
    using p a by (simp add: incRestarts_def setStatus_def)
  have nr: "\<not> alreadyRunning ?s3 (Name (Config p))"
    using assms(6) a h2 by (simp add: alreadyRunning_def deref_def incRestarts_def setStatus_def)
  have other: "logsPath ?s3 = logsPath s" "spawned ?s3 = spawned s" "length (heap ?s3) = length (heap s)"
    "processes ?s3 = processes s" "tasks ?s3 = tasks s"
    by (simp_all add: incRestarts_def setStatus_def)
  have single: "startSingle w (Config p) ?s3 = Return (Inr (length (heap ?s3)),
       ?s3\<lparr>heap := heap ?s3 @
            [\<lparr>Config = Config p, Cmd = Some pid', PID = pid', Status = ''running'', Restarts = 0,
              LogFiles = [(''stdout'', stdoutPath w (Config p) (logsPath ?s3)), (''stderr'', stderrPath w (Config p) (logsPath ?s3))],
              ClusterProcs = []\<rparr>],
         spawned := spawned ?s3 @ [(Name (Config p), pid')],
         processes := AList.update (Name (Config p)) (length (heap ?s3)) (processes ?s3),
         tasks := tasks ?s3 @
           (if PostStart (Scripts (Config p)) \<noteq> [] then [PostStartHook (PostStart (Scripts (Config p)))] else [])
           @ [Monitor (length (heap ?s3))]\<rparr>)"
    by (rule startSingle_ok) (use assms other in simp_all)
  have sp: "StartProcess w (Config p) ?s2 = deferUnlock (startSingle w (Config p) ?s3)"
    using assms(3,7) nr
    by (subst StartProcess.simps) (simp add: Lock_def incRestarts_def setStatus_def)
  have fin: "Unlock (?s3\<lparr>heap := H, spawned := sp', processes := pr', tasks := tk'\<rparr>)
     = s\<lparr>heap := H, spawned := sp', processes := pr', tasks := tk'\<rparr>" for H sp' pr' tk'
    using assms(3) by (cases s) (simp add: Unlock_def incRestarts_def setStatus_def)
  have "monitorProcess w a waitErr s =
      (case StartProcess w (Config p) ?s2 of Deadlock \<Rightarrow> Deadlock | Panic \<Rightarrow> Panic
       | NoFuel \<Rightarrow> NoFuel | Return (r, s') \<Rightarrow> Return s')"
    using assms(1,2,4,5) by (auto simp: monitorProcess_def)
  also have "\<dots> = Return (Unlock (?s3\<lparr>heap := heap ?s3 @
            [\<lparr>Config = Config p, Cmd = Some pid', PID = pid', Status = ''running'', Restarts = 0,
              LogFiles = [(''stdout'', stdoutPath w (Config p) (logsPath ?s3)), (''stderr'', stderrPath w (Config p) (logsPath ?s3))],
              ClusterProcs = []\<rparr>],
         spawned := spawned ?s3 @ [(Name (Config p), pid')],
         processes := AList.update (Name (Config p)) (length (heap ?s3)) (processes ?s3),
         tasks := tasks ?s3 @
           (if PostStart (Scripts (Config p)) \<noteq> [] then [PostStartHook (PostStart (Scripts (Config p)))] else [])
           @ [Monitor (length (heap ?s3))]\<rparr>))"
    by (simp only: sp single deferUnlock_def run.case prod.case)
  also have "\<dots> = Return (s\<lparr>heap := heap ?s3 @
            [\<lparr>Config = Config p, Cmd = Some pid', PID = pid', Status = ''running'', Restarts = 0,
              LogFiles = [(''stdout'', stdoutPath w (Config p) (logsPath ?s3)), (''stderr'', stderrPath w (Config p) (logsPath ?s3))],
              ClusterProcs = []\<rparr>],
         spawned := spawned ?s3 @ [(Name (Config p), pid')],
         processes := AList.update (Name (Config p)) (length (heap ?s3)) (processes ?s3),
         tasks := tasks ?s3 @
           (if PostStart (Scripts (Config p)) \<noteq> [] then [PostStartHook (PostStart (Scripts (Config p)))] else [])
           @ [Monitor (length (heap ?s3))]\<rparr>)"
    by (simp only: fin)
  also have "heap ?s3 = (heap s)[a := p\<lparr>Status := ''stopped'', Restarts := Restarts p + 1\<rparr>]"
    using h2 by simp
  finally show ?thesis
    by (simp only: other) simp
qed


lemma pm1_started:
  "StartProcess os_ok (descriptor name policy cap 0) pm0 = Return (Inr 0, pm1 (descriptor name policy cap 0))"
  by (simp add: StartProcess.simps Lock_def Unlock_def deferUnlock_def alreadyRunning_def
      startSingle_def setupLogging_def stdoutPath_def stderrPath_def
      pm1_def record0_def pm0_def os_ok_def descriptor_def)

text \<open>
  C3. The monitor of a record decides on the exit it observes. If the policy is neither
  always nor on-failure (so with never), or it is on-failure and the exit was a success,
  or the record's counter has reached a non-zero cap, the exit is terminal: nothing is
  spawned, the record keeps its counter and gets the status stopped, and its name leaves
  the registry. Otherwise, provided the monitored record is the one registered under its
  name and every step of the start succeeds, one child is spawned from the same
  descriptor and registered as running, and the old record's counter is incremented.
\<close>

theorem monitor_restart_policy:
  assumes "deref s a = Some p" and "Cmd p = Some pid" and "\<not> locked s"
  shows
    "(\<not> ((Restart (Config p) = ''always'' \<or> (Restart (Config p) = ''on-failure'' \<and> waitErr)) \<and>
          (MaxRestarts (Config p) = 0 \<or> Restarts p < MaxRestarts (Config p))) \<longrightarrow>
      monitorProcess w a waitErr s =
        Return (s\<lparr>heap := (heap s)[a := p\<lparr>Status := ''stopped''\<rparr>],
                 processes := AList.delete (Name (Config p)) (processes s)\<rparr>)) \<and>
     ((Restart (Config p) = ''always'' \<or> (Restart (Config p) = ''on-failure'' \<and> waitErr)) \<and>
      (MaxRestarts (Config p) = 0 \<or> Restarts p < MaxRestarts (Config p)) \<and>
      map_of (processes s) (Name (Config p)) = Some a \<and>
      Instances (Cluster (Config p)) \<le> 1 \<and>
      (PreStart (Scripts (Config p)) = [] \<or> runScript_ok w (PreStart (Scripts (Config p)))) \<and>
      (User (Config p) = [] \<or> setProcessUser w (User (Config p)) (Group (Config p)) = None) \<and>
      MkdirAll_ok w (logsPath s) \<and>
      OpenFile_ok w (stdoutPath w (Config p) (logsPath s)) \<and>
      OpenFile_ok w (stderrPath w (Config p) (logsPath s)) \<and>
      cmd_Start w (Config p) (length (spawned s)) = Some pid' \<longrightarrow>
      monitorProcess w a waitErr s =
        Return (s\<lparr>heap := (heap s)[a := p\<lparr>Status := ''stopped'', Restarts := Restarts p + 1\<rparr>] @
            [\<lparr>Config = Config p, Cmd = Some pid', PID = pid', Status = ''running'', Restarts = 0,
              LogFiles = [(''stdout'', stdoutPath w (Config p) (logsPath s)),
                          (''stderr'', stderrPath w (Config p) (logsPath s))],
              ClusterProcs = []\<rparr>],
         spawned := spawned s @ [(Name (Config p), pid')],
         processes := AList.update (Name (Config p)) (length (heap s)) (processes s),
         tasks := tasks s @
           (if PostStart (Scripts (Config p)) \<noteq> [] then [PostStartHook (PostStart (Scripts (Config p)))] else [])
           @ [Monitor (length (heap s))]\<rparr>))"
proof (intro conjI impI)
  assume "\<not> ((Restart (Config p) = ''always'' \<or> (Restart (Config p) = ''on-failure'' \<and> waitErr)) \<and>
          (MaxRestarts (Config p) = 0 \<or> Restarts p < MaxRestarts (Config p)))"
  then have "\<not> (shouldRestart (Config p) waitErr \<and>
            (MaxRestarts (Config p) = 0 \<or> Restarts p < MaxRestarts (Config p)))"
    by (auto simp: shouldRestart_def split: if_splits)
  with assms show "monitorProcess w a waitErr s =
        Return (s\<lparr>heap := (heap s)[a := p\<lparr>Status := ''stopped''\<rparr>],
                 processes := AList.delete (Name (Config p)) (processes s)\<rparr>)"
    by (rule monitor_terminal)
next
  assume h: "(Restart (Config p) = ''always'' \<or> (Restart (Config p) = ''on-failure'' \<and> waitErr)) \<and>
      (MaxRestarts (Config p) = 0 \<or> Restarts p < MaxRestarts (Config p)) \<and>
      map_of (processes s) (Name (Config p)) = Some a \<and>
      Instances (Cluster (Config p)) \<le> 1 \<and>
      (PreStart (Scripts (Config p)) = [] \<or> runScript_ok w (PreStart (Scripts (Config p)))) \<and>
      (User (Config p) = [] \<or> setProcessUser w (User (Config p)) (Group (Config p)) = None) \<and>
      MkdirAll_ok w (logsPath s) \<and>
      OpenFile_ok w (stdoutPath w (Config p) (logsPath s)) \<and>
      OpenFile_ok w (stderrPath w (Config p) (logsPath s)) \<and>
      cmd_Start w (Config p) (length (spawned s)) = Some pid'"
  then have "shouldRestart (Config p) waitErr"
    by (auto simp: shouldRestart_def)
  with assms h show "monitorProcess w a waitErr s =
        Return (s\<lparr>heap := (heap s)[a := p\<lparr>Status := ''stopped'', Restarts := Restarts p + 1\<rparr>] @
            [\<lparr>Config = Config p, Cmd = Some pid', PID = pid', Status = ''running'', Restarts = 0,
              LogFiles = [(''stdout'', stdoutPath w (Config p) (logsPath s)),
                          (''stderr'', stderrPath w (Config p) (logsPath s))],
              ClusterProcs = []\<rparr>],
         spawned := spawned s @ [(Name (Config p), pid')],
         processes := AList.update (Name (Config p)) (length (heap s)) (processes s),
         tasks := tasks s @
           (if PostStart (Scripts (Config p)) \<noteq> [] then [PostStartHook (PostStart (Scripts (Config p)))] else [])
           @ [Monitor (length (heap s))]\<rparr>)"
    by (intro monitor_restart) simp_all
qed

theorem monitor_restart_policy_witness:
  "deref (pm1 (descriptor ''svc'' ''never'' 3 0)) 0 = Some (record0 (descriptor ''svc'' ''never'' 3 0)) \<and>
   \<not> locked (pm1 (descriptor ''svc'' ''never'' 3 0)) \<and>
   andThen (monitorProcess os_ok 0 True (pm1 (descriptor ''svc'' ''never'' 3 0)))
     (\<lambda>s. Return (spawned s, processes s, map Status (heap s), map Restarts (heap s)))
     = Return ([(''svc'', 1000)], [], [''stopped''], [0]) \<and>
   andThen (monitorProcess os_ok 0 False (pm1 (descriptor ''svc'' ''on-failure'' 3 0)))
     (\<lambda>s. Return (spawned s, processes s, map Status (heap s), map Restarts (heap s)))
     = Return ([(''svc'', 1000)], [], [''stopped''], [0]) \<and>
   andThen (monitorProcess os_ok 0 True (pm1 (descriptor ''svc'' ''on-failure'' 3 0)))
     (\<lambda>s. Return (spawned s, processes s, map Status (heap s), map Restarts (heap s)))
     = Return ([(''svc'', 1000), (''svc'', 1001)], [(''svc'', 1)], [''stopped'', ''running''], [1, 0]) \<and>
   andThen (monitorProcess os_ok 0 False (pm1 (descriptor ''svc'' ''always'' 3 0)))
     (\<lambda>s. Return (spawned s, processes s, map Status (heap s), map Restarts (heap s)))
     = Return ([(''svc'', 1000), (''svc'', 1001)], [(''svc'', 1)], [''stopped'', ''running''], [1, 0])"
  using monitor_restart_policy [of "pm1 (descriptor ''svc'' ''never'' 3 0)" 0
          "record0 (descriptor ''svc'' ''never'' 3 0)" 1000 True os_ok 1001]
        monitor_restart_policy [of "pm1 (descriptor ''svc'' ''on-failure'' 3 0)" 0
          "record0 (descriptor ''svc'' ''on-failure'' 3 0)" 1000 False os_ok 1001]
        monitor_restart_policy [of "pm1 (descriptor ''svc'' ''on-failure'' 3 0)" 0
          "record0 (descriptor ''svc'' ''on-failure'' 3 0)" 1000 True os_ok 1001]
        monitor_restart_policy [of "pm1 (descriptor ''svc'' ''always'' 3 0)" 0
          "record0 (descriptor ''svc'' ''always'' 3 0)" 1000 False os_ok 1001]
  by (simp add: pm1_def record0_def pm0_def os_ok_def descriptor_def deref_def andThen_def
        stdoutPath_def stderrPath_def)

subsection \<open>The tail of a log\<close>

lemma GetLogs_path:
  assumes "\<not> locked s"
    and "map_of (processes s) name = Some a" and "deref s a = Some p" and "ClusterProcs p = []"
  shows "Stdout (Log (Config p)) = [] \<or> IsAbs (Stdout (Log (Config p))) \<Longrightarrow>
         GetLogs w s name ''stdout'' n = Return (readLastLines w (stdoutPath w (Config p) (logsPath s)) n)"
    and "Stderr (Log (Config p)) = [] \<or> IsAbs (Stderr (Log (Config p))) \<Longrightarrow>
         GetLogs w s name ''stderr'' n = Return (readLastLines w (stderrPath w (Config p) (logsPath s)) n)"
  using assms by (auto simp: GetLogs_def GetProcess_def stdoutPath_def stderrPath_def)

text \<open>
  On a manager whose mutex is free, for a registered record that is not a cluster
  master, whose configured log paths
  are empty or absolute (so that \<open>GetLogs\<close> reads the file \<open>setupLogging\<close> opened for the
  stream): when the stream's log file exists and the scanner reads it without an error,
  \<open>GetLogs\<close> returns all its lines if \<open>n \<le> 0\<close> or there are at most \<open>n\<close> of them, and
  its last \<open>n\<close> lines otherwise; when the file does not exist it returns an error; and a
  stream other than stdout and stderr is an error.
\<close>

theorem logs_tail:
  assumes "\<not> locked s"
    and "map_of (processes s) name = Some a" and "deref s a = Some p" and "ClusterProcs p = []"
    and "Stdout (Log (Config p)) = [] \<or> IsAbs (Stdout (Log (Config p)))"
    and "Stderr (Log (Config p)) = [] \<or> IsAbs (Stderr (Log (Config p)))"
    and "logFile = (if stream = ''stdout'' then stdoutPath w (Config p) (logsPath s)
                    else stderrPath w (Config p) (logsPath s))"
  shows
    "((stream = ''stdout'' \<or> stream = ''stderr'') \<and> files w logFile = Some (ls, False) \<longrightarrow>
        GetLogs w s name stream n =
          Return (if n \<le> 0 \<or> int (length ls) \<le> n then ls else drop (length ls - nat n) ls, None)) \<and>
     ((stream = ''stdout'' \<or> stream = ''stderr'') \<and> files w logFile = None \<longrightarrow>
        (\<exists>e. GetLogs w s name stream n = Return ([], Some e))) \<and>
     (stream \<noteq> ''stdout'' \<and> stream \<noteq> ''stderr'' \<longrightarrow>
        (\<exists>e. GetLogs w s name stream n = Return ([], Some e)))"
proof (intro conjI impI)
  assume h: "(stream = ''stdout'' \<or> stream = ''stderr'') \<and> files w logFile = Some (ls, False)"
  then have g: "GetLogs w s name stream n = Return (readLastLines w logFile n)"
    using GetLogs_path[OF assms(1,2,3,4)] assms(5,6,7) by auto
  have "nat (int (length ls) - n) = length ls - nat n" if "0 < n"
    using that by linarith
  with h show "GetLogs w s name stream n =
          Return (if n \<le> 0 \<or> int (length ls) \<le> n then ls else drop (length ls - nat n) ls, None)"
    by (simp add: g readLastLines_def)
next
  assume h: "(stream = ''stdout'' \<or> stream = ''stderr'') \<and> files w logFile = None"
  then have g: "GetLogs w s name stream n = Return (readLastLines w logFile n)"
    using GetLogs_path[OF assms(1,2,3,4)] assms(5,6,7) by auto
  with h show "\<exists>e. GetLogs w s name stream n = Return ([], Some e)"
    by (simp add: readLastLines_def)
next
  assume "stream \<noteq> ''stdout'' \<and> stream \<noteq> ''stderr''"
  with assms(1,2,3,4) show "\<exists>e. GetLogs w s name stream n = Return ([], Some e)"
    by (simp add: GetLogs_def GetProcess_def)
qed



theorem logs_tail_witness:
  "GetLogs os_logs (pm1 (descriptor ''svc'' ''always'' 0 0)) ''svc'' ''stdout'' 2 = Return ([''two'', ''three''], None) \<and>
   GetLogs os_logs (pm1 (descriptor ''svc'' ''always'' 0 0)) ''svc'' ''stdout'' 3 = Return ([''one'', ''two'', ''three''], None) \<and>
   GetLogs os_logs (pm1 (descriptor ''svc'' ''always'' 0 0)) ''svc'' ''stdout'' 0 = Return ([''one'', ''two'', ''three''], None) \<and>
   (\<exists>e. GetLogs os_logs (pm1 (descriptor ''svc'' ''always'' 0 0)) ''svc'' ''stderr'' 2 = Return ([], Some e)) \<and>
   (\<exists>e. GetLogs os_logs (pm1 (descriptor ''svc'' ''always'' 0 0)) ''svc'' ''stdin'' 2 = Return ([], Some e))"
proof -
  let ?s = "pm1 (descriptor ''svc'' ''always'' 0 0)"
  let ?p = "record0 (descriptor ''svc'' ''always'' 0 0)"
  have h0: "\<not> locked ?s"
    by (simp add: pm1_def pm0_def)
  have h1: "map_of (processes ?s) ''svc'' = Some 0"
    by (simp add: pm1_def pm0_def descriptor_def)
  have h2: "deref ?s 0 = Some ?p"
    by (simp add: pm1_def pm0_def deref_def)
  have h3: "ClusterProcs ?p = []"
    by (simp add: record0_def)
  have h4: "Stdout (Log (Config ?p)) = [] \<or> IsAbs (Stdout (Log (Config ?p)))"
    by (simp add: record0_def descriptor_def)
  have h5: "Stderr (Log (Config ?p)) = [] \<or> IsAbs (Stderr (Log (Config ?p)))"
    by (simp add: record0_def descriptor_def)
  have out: "''/gem/logs/svc.out.log'' = (if ''stdout'' = ''stdout'' then stdoutPath os_logs (Config ?p) (logsPath ?s)
                    else stderrPath os_logs (Config ?p) (logsPath ?s))"
    by (simp add: stdoutPath_def record0_def descriptor_def pm1_def pm0_def os_logs_def os_ok_def)
  have err: "''/gem/logs/svc.err.log'' = (if ''stderr'' = ''stdout'' then stdoutPath os_logs (Config ?p) (logsPath ?s)
                    else stderrPath os_logs (Config ?p) (logsPath ?s))"
    by (simp add: stderrPath_def record0_def descriptor_def pm1_def pm0_def os_logs_def os_ok_def)
  have bad: "''/gem/logs/svc.err.log'' = (if ''stdin'' = ''stdout'' then stdoutPath os_logs (Config ?p) (logsPath ?s)
                    else stderrPath os_logs (Config ?p) (logsPath ?s))"
    by (simp add: stderrPath_def record0_def descriptor_def pm1_def pm0_def os_logs_def os_ok_def)
  have f1: "files os_logs ''/gem/logs/svc.out.log'' = Some ([''one'', ''two'', ''three''], False)"
    by (simp add: os_logs_def)
  have f2: "files os_logs ''/gem/logs/svc.err.log'' = None"
    by (simp add: os_logs_def)
  from logs_tail [OF h0 h1 h2 h3 h4 h5 out, of "[''one'', ''two'', ''three'']" 2] f1
  have a: "GetLogs os_logs ?s ''svc'' ''stdout'' 2 = Return ([''two'', ''three''], None)"
    by simp
  from logs_tail [OF h0 h1 h2 h3 h4 h5 out, of "[''one'', ''two'', ''three'']" 3] f1
  have b: "GetLogs os_logs ?s ''svc'' ''stdout'' 3 = Return ([''one'', ''two'', ''three''], None)"
    by simp
  from logs_tail [OF h0 h1 h2 h3 h4 h5 out, of "[''one'', ''two'', ''three'']" 0] f1
  have c: "GetLogs os_logs ?s ''svc'' ''stdout'' 0 = Return ([''one'', ''two'', ''three''], None)"
    by simp
  from logs_tail [OF h0 h1 h2 h3 h4 h5 err, of "[]" 2] f2
  have d: "\<exists>e. GetLogs os_logs ?s ''svc'' ''stderr'' 2 = Return ([], Some e)"
    by simp
  from logs_tail [OF h0 h1 h2 h3 h4 h5 bad, of "[]" 2]
  have e: "\<exists>e. GetLogs os_logs ?s ''svc'' ''stdin'' 2 = Return ([], Some e)"
    by simp
  from a b c d e show ?thesis by blast
qed

text \<open>
  C8. A process is started from a descriptor whose standard output log is the relative
  path \<open>logs/out.log\<close>. \<open>setupLogging\<close> joins it with the logs directory, so the stream is
  written to \<open>/gem/logs/logs/out.log\<close>, which holds three lines. Asked for the last two
  lines of stdout, \<open>GetLogs\<close> opens the bare path \<open>logs/out.log\<close> and returns an error
  instead of the last two lines of the stream's log file.
\<close>

theorem relative_log_not_read:
  "andThen (StartProcess os_rel relative pm0) (\<lambda>(r, s).
     Return (r, map LogFiles (heap s), GetLogs os_rel s ''web'' ''stdout'' 2))
   = Return (Inr 0,
       [[(''stdout'', ''/gem/logs/logs/out.log''), (''stderr'', ''/gem/logs/logs/error.log'')]],
       Return ([], Some (OpenFailed ''logs/out.log''))) \<and>
   files os_rel ''/gem/logs/logs/out.log'' = Some ([''one'', ''two'', ''three''], False)"
  by code_simp

subsection \<open>Cluster masters in the registry\<close>

text \<open>
  Starting, monitoring and stopping never create a record with workers: a start that
  returns has taken the path of a single process, because the path of a cluster blocks on
  the mutex before a worker is appended to the master or the master is stored. From the
  empty manager on, \<open>StopProcess\<close> therefore never meets a cluster master.
\<close>

lemma startSingle_noMaster:
  "startSingle w c s = Return (r, s') \<Longrightarrow> noMaster s \<Longrightarrow> noMaster s'"
  by (auto simp: startSingle_def noMaster_def split: if_splits option.splits sum.splits)

lemma StartProcess_noMaster:
  assumes "StartProcess w c s = Return (r, s')" and "noMaster s"
  shows "noMaster s'"
proof (cases "locked s")
  case True
  with assms show ?thesis by (simp add: StartProcess_locked)
next
  case False
  let ?s1 = "s\<lparr>locked := True\<rparr>"
  have n1: "noMaster ?s1" using assms(2) by (simp add: noMaster_def)
  have r: "deferUnlock
            (if alreadyRunning ?s1 (Name c) then Return (Inl (AlreadyRunning (Name c)), ?s1)
             else if Instances (Cluster c) > 1 then startClusterProcess w c ?s1
             else startSingle w c ?s1) = Return (r, s')"
    using assms(1) False by (subst (asm) StartProcess.simps) (simp add: Lock_def)
  show ?thesis
  proof (cases "alreadyRunning ?s1 (Name c)")
    case True
    with r n1 show ?thesis by (auto simp: deferUnlock_def Unlock_def noMaster_def)
  next
    case nr: False
    show ?thesis
    proof (cases "Instances (Cluster c) > 1")
      case True
      with r nr show ?thesis by (simp add: startClusterProcess_locked deferUnlock_def)
    next
      case single: False
      with r nr have "deferUnlock (startSingle w c ?s1) = Return (r, s')" by simp
      then obtain s2 where s2: "startSingle w c ?s1 = Return (r, s2)" and u: "s' = Unlock s2"
        by (auto simp: deferUnlock_def split: run.splits)
      from startSingle_noMaster[OF s2 n1] u show ?thesis by (simp add: noMaster_def Unlock_def)
    qed
  qed
qed


lemma noMaster_setStatus: "noMaster s \<Longrightarrow> noMaster (setStatus a st s)"
  by (cases "a < length (heap s)")
     (auto simp: noMaster_def setStatus_def list_all_length nth_list_update)

lemma noMaster_incRestarts: "noMaster s \<Longrightarrow> noMaster (incRestarts a s)"
  by (cases "a < length (heap s)")
     (auto simp: noMaster_def incRestarts_def list_all_length nth_list_update)

lemma noMaster_deref: "noMaster s \<Longrightarrow> deref s a = Some p \<Longrightarrow> ClusterProcs p = []"
  by (auto simp: noMaster_def deref_def list_all_length split: if_splits)

lemma monitorProcess_noMaster:
  assumes "monitorProcess w a waitErr s = Return s'" and "noMaster s"
  shows "noMaster s'"
proof -
  have n2: "noMaster (incRestarts a (setStatus a ''stopped'' s))"
    using assms(2) by (simp add: noMaster_setStatus noMaster_incRestarts)
  have n1: "noMaster (setStatus a ''stopped'' s)"
    using assms(2) by (simp add: noMaster_setStatus)
  from assms(1) consider
    (restart) r where "StartProcess w (Config (heap s ! a)) (incRestarts a (setStatus a ''stopped'' s)) = Return (r, s')"
    | (terminal) p where "deref s a = Some p"
        "s' = Unlock ((setStatus a ''stopped'' s)\<lparr>locked := True,
               processes := AList.delete (Name (Config p)) (processes (setStatus a ''stopped'' s))\<rparr>)"
    by (auto simp: monitorProcess_def deref_def Lock_def setStatus_def
             split: option.splits if_splits run.splits prod.splits)
  then show ?thesis
  proof cases
    case restart
    then show ?thesis using n2 by (rule StartProcess_noMaster)
  next
    case terminal
    with n1 show ?thesis by (simp add: noMaster_def Unlock_def)
  qed
qed

lemma StopProcess_noMaster:
  assumes "StopProcess n w name force s = Return (e, s')" and "noMaster s"
  shows "noMaster s'"
proof (cases n)
  case 0
  with assms show ?thesis by simp
next
  case (Suc k)
  have c: "ClusterProcs p = []" if "deref s a = Some p" for a p
    using assms(2) that by (rule noMaster_deref)
  from assms(1) Suc have "heap s' = heap s \<or> (\<exists>a. heap s' = heap (setStatus a ''stopped'' s))"
    by (auto simp: Lock_def Unlock_def setStatus_def c
             split: option.splits if_splits run.splits prod.splits)
  with assms(2) noMaster_setStatus[OF assms(2)] show ?thesis
    by (auto simp: noMaster_def)
qed

lemma noMaster_pm0: "noMaster pm0"
  by (simp add: noMaster_def pm0_def)

end
